theory Spec2Isabelle
  imports Complex_Main "HOL-Library.Word"
begin

section \<open>Python values\<close>

text \<open>
  The handler of \<^verbatim>\<open>functions/product_image_analyzer/main.py\<close> moves values of type
  \<^verbatim>\<open>Any\<close> around: the request payload, the row of \<^verbatim>\<open>product_images\<close> and the parsed
  answer of the model are whatever a JSON parser produces. \<open>JNull\<close> is Python's
  \<^verbatim>\<open>None\<close>. A dict is an association list read with \<open>map_of\<close>; the keys of a parsed
  dict are distinct.
\<close>

datatype json =
    JNull
  | JBool bool
  | JInt int
  | JFloat real
  | JStr string
  | JArr "json list"
  | JObj "(string \<times> json) list"

text \<open>Truthiness, as \<^verbatim>\<open>if x:\<close>, \<^verbatim>\<open>not x\<close> and \<^verbatim>\<open>x or y\<close> test it.\<close>

fun truthy :: "json \<Rightarrow> bool" where
  "truthy JNull = False"
| "truthy (JBool b) = b"
| "truthy (JInt n) = (n \<noteq> 0)"
| "truthy (JFloat r) = (r \<noteq> 0)"
| "truthy (JStr s) = (s \<noteq> [])"
| "truthy (JArr xs) = (xs \<noteq> [])"
| "truthy (JObj kvs) = (kvs \<noteq> [])"

definition py_or :: "json \<Rightarrow> json \<Rightarrow> json" where
  "py_or x y = (if truthy x then x else y)"

definition quote :: char where
  "quote = CHR 0x27"

definition quoted :: "string \<Rightarrow> string" where
  "quoted s = [quote] @ s @ [quote]"

fun type_name :: "json \<Rightarrow> string" where
  "type_name JNull = ''NoneType''"
| "type_name (JBool b) = ''bool''"
| "type_name (JInt n) = ''int''"
| "type_name (JFloat r) = ''float''"
| "type_name (JStr s) = ''str''"
| "type_name (JArr xs) = ''list''"
| "type_name (JObj kvs) = ''dict''"

subsection \<open>Exceptions\<close>

text \<open>
  An exception is its class and the text \<^verbatim>\<open>str(exc)\<close> gives. A class stands for itself
  and its subclasses, as an \<^verbatim>\<open>except\<close> clause sees them: \<^verbatim>\<open>json.JSONDecodeError\<close> and
  the URL errors of \<^verbatim>\<open>requests\<close> are \<open>ValueError\<close>. \<open>OtherException\<close> is any other
  subclass of \<^verbatim>\<open>Exception\<close>.
\<close>

datatype exc_class =
    ValueError
  | RuntimeError
  | APIError
  | AttributeError
  | KeyError
  | TypeError
  | IndexError
  | OtherException

datatype exc = Exc (cls: exc_class) (str_of: string)

text \<open>\<^verbatim>\<open>d.get(key)\<close>: the value, \<^verbatim>\<open>None\<close> for a missing key.\<close>

definition dict_get :: "(string \<times> json) list \<Rightarrow> string \<Rightarrow> json" where
  "dict_get kvs k = (case map_of kvs k of None \<Rightarrow> JNull | Some v \<Rightarrow> v)"

text \<open>\<^verbatim>\<open>obj.get(key)\<close> on any value: only a dict has the method.\<close>

definition py_get :: "json \<Rightarrow> string \<Rightarrow> exc + json" where
  "py_get obj k =
     (case obj of
        JObj kvs \<Rightarrow> Inr (dict_get kvs k)
      | _ \<Rightarrow> Inl (Exc AttributeError
                 (quoted (type_name obj) @ '' object has no attribute '' @ quoted ''get'')))"

text \<open>\<^verbatim>\<open>obj[0]\<close>: the first element of a list, the first character of a string.\<close>

definition index0 :: "json \<Rightarrow> exc + json" where
  "index0 obj =
     (case obj of
        JArr xs \<Rightarrow> (case xs of [] \<Rightarrow> Inl (Exc IndexError ''list index out of range'')
                    | x # _ \<Rightarrow> Inr x)
      | JStr s \<Rightarrow> (case s of [] \<Rightarrow> Inl (Exc IndexError ''string index out of range'')
                    | c # _ \<Rightarrow> Inr (JStr [c]))
      | JObj kvs \<Rightarrow> Inl (Exc KeyError ''0'')
      | _ \<Rightarrow> Inl (Exc TypeError (quoted (type_name obj) @ '' object is not subscriptable'')))"

section \<open>The outside world\<close>

text \<open>
  The row store, the HTTP client, the model backend, the JSON parser and the clock are
  collaborators outside the repository. Each is a field of the environment: what the call
  returns or raises for its arguments. Within one request every one of them is called at
  most once. Of the store, \<open>execute_select\<close> gives the rows whose id equals the one asked
  for, or what the request itself raises; \<open>single_error_text\<close> is the text of the error
  the store client raises when \<^verbatim>\<open>single()\<close> does not find exactly one row.
\<close>

type_synonym bytes = "8 word list"

datatype supabase_client = SupabaseClient string string

datatype gemini_client = GeminiClient string

text \<open>
  The answer of \<^verbatim>\<open>generate_content\<close>, with the optional fields of the SDK's types:
  \<^verbatim>\<open>response.candidates\<close>, \<^verbatim>\<open>candidate.content\<close>, \<^verbatim>\<open>content.parts\<close> and
  \<^verbatim>\<open>part.text\<close> may each be \<^verbatim>\<open>None\<close>.
\<close>

datatype part = Part (part_text: "string option")

datatype content = Content (content_parts: "part list option")

datatype candidate = Candidate (candidate_content: "content option")

datatype gen_response = GenResponse (candidates: "candidate list option")

text \<open>The calls that leave the process, in the order they are issued.\<close>

datatype call =
    Select supabase_client json
  | HttpGet json
  | GenerateContent gemini_client string bytes
  | Update supabase_client json json

record env =
  environ :: "string \<Rightarrow> string option"
  create_client_raises :: "string \<Rightarrow> string \<Rightarrow> exc option"
  genai_Client_raises :: "string \<Rightarrow> exc option"
  execute_select :: "supabase_client \<Rightarrow> json \<Rightarrow> exc + json list"
  single_error_text :: "json list \<Rightarrow> string"
  requests_get :: "json \<Rightarrow> exc + bytes"
  generate_content :: "gemini_client \<Rightarrow> string \<Rightarrow> bytes \<Rightarrow> exc + gen_response"
  json_loads :: "string \<Rightarrow> json option"
  execute_update :: "supabase_client \<Rightarrow> json \<Rightarrow> json \<Rightarrow> exc option"
  duration :: "call \<Rightarrow> nat"
  isoformat :: "nat \<Rightarrow> string"
  py_repr :: "json \<Rightarrow> string"

text \<open>
  The state of the process: the two module-level clients, the UTC clock (it only advances,
  by the time each outside call takes) and the calls issued so far.
\<close>

record state =
  supabase_client :: "supabase_client option"
  gemini_client :: "gemini_client option"
  clock :: nat
  calls :: "call list"

definition issue :: "env \<Rightarrow> call \<Rightarrow> state \<Rightarrow> state" where
  "issue e c s = s\<lparr>clock := clock s + duration e c, calls := calls s @ [c]\<rparr>"

text \<open>\<^verbatim>\<open>str(x)\<close> inside an f-string: a string is itself, any other value its rendering.\<close>

definition py_str :: "env \<Rightarrow> json \<Rightarrow> string" where
  "py_str e v = (case v of JStr s \<Rightarrow> s | _ \<Rightarrow> py_repr e v)"

section \<open>The functions of main.py\<close>

definition get_supabase_client :: "env \<Rightarrow> state \<Rightarrow> (exc + supabase_client) \<times> state" where
  "get_supabase_client e s =
     (case supabase_client s of
        Some c \<Rightarrow> (Inr c, s)
      | None \<Rightarrow>
          (case environ e ''SUPABASE_URL'' of
             None \<Rightarrow> (Inl (Exc KeyError (quoted ''SUPABASE_URL'')), s)
           | Some supabase_url \<Rightarrow>
               (case environ e ''SUPABASE_SERVICE_ROLE_KEY'' of
                  None \<Rightarrow> (Inl (Exc KeyError (quoted ''SUPABASE_SERVICE_ROLE_KEY'')), s)
                | Some service_role_key \<Rightarrow>
                    (case create_client_raises e supabase_url service_role_key of
                       Some x \<Rightarrow> (Inl x, s)
                     | None \<Rightarrow>
                         (Inr (SupabaseClient supabase_url service_role_key),
                          s\<lparr>supabase_client :=
                               Some (SupabaseClient supabase_url service_role_key)\<rparr>)))))"

definition get_gemini_client :: "env \<Rightarrow> state \<Rightarrow> (exc + gemini_client) \<times> state" where
  "get_gemini_client e s =
     (case gemini_client s of
        Some c \<Rightarrow> (Inr c, s)
      | None \<Rightarrow>
          (case environ e ''GEMINI_API_KEY'' of
             None \<Rightarrow> (Inl (Exc KeyError (quoted ''GEMINI_API_KEY'')), s)
           | Some api_key \<Rightarrow>
               (case genai_Client_raises e api_key of
                  Some x \<Rightarrow> (Inl x, s)
                | None \<Rightarrow>
                    (Inr (GeminiClient api_key),
                     s\<lparr>gemini_client := Some (GeminiClient api_key)\<rparr>))))"

text \<open>
  The query of line 56 ends in \<^verbatim>\<open>single()\<close>: the store client hands back the one matching
  row as \<^verbatim>\<open>response.data\<close>, and raises its \<^verbatim>\<open>APIError\<close> from \<^verbatim>\<open>execute()\<close> when the
  rows matched are none or several. The test of line 60 is therefore reached with a row.
\<close>

definition fetch_product_image_record :: "env \<Rightarrow> json \<Rightarrow> state \<Rightarrow> (exc + json) \<times> state" where
  "fetch_product_image_record e image_id s =
     (case get_supabase_client e s of
        (Inl x, s1) \<Rightarrow> (Inl x, s1)
      | (Inr client, s1) \<Rightarrow>
          (case execute_select e client image_id of
             Inl x \<Rightarrow> (Inl x, issue e (Select client image_id) s1)
           | Inr rows \<Rightarrow>
               (case rows of
                  [data] \<Rightarrow>
                    if \<not> truthy data
                    then (Inl (Exc ValueError
                            (''No product_images row found for id '' @
                             quoted (py_str e image_id))),
                          issue e (Select client image_id) s1)
                    else (Inr data, issue e (Select client image_id) s1)
                | _ \<Rightarrow>
                    (Inl (Exc APIError (single_error_text e rows)),
                     issue e (Select client image_id) s1))))"

definition select_image_url :: "json \<Rightarrow> exc + json" where
  "select_image_url record =
     (case py_get record ''thumbnail_url'' of
        Inl x \<Rightarrow> Inl x
      | Inr thumbnail_url \<Rightarrow>
          if truthy thumbnail_url then Inr thumbnail_url
          else
            (case py_get record ''primary_image_url'' of
               Inl x \<Rightarrow> Inl x
             | Inr primary_image_url \<Rightarrow>
                 if truthy primary_image_url then Inr primary_image_url
                 else
                   (case py_get record ''image_urls'' of
                      Inl x \<Rightarrow> Inl x
                    | Inr v \<Rightarrow>
                        if truthy (py_or v (JArr [])) then index0 (py_or v (JArr []))
                        else Inl (Exc ValueError
                               ''No usable image URL found in product_images record''))))"

definition download_image :: "env \<Rightarrow> json \<Rightarrow> state \<Rightarrow> (exc + bytes) \<times> state" where
  "download_image e image_url s =
     (case requests_get e image_url of
        Inl x \<Rightarrow> (Inl x, issue e (HttpGet image_url) s)
      | Inr content \<Rightarrow> (Inr content, issue e (HttpGet image_url) s))"

text \<open>The loop of \<^verbatim>\<open>_call_gemini\<close> over the parts of the first candidate.\<close>

fun scan_parts :: "env \<Rightarrow> part list \<Rightarrow> exc + json" where
  "scan_parts e [] = Inl (Exc RuntimeError ''Gemini candidate had no textual JSON content'')"
| "scan_parts e (p # ps) =
     (case part_text p of
        None \<Rightarrow> scan_parts e ps
      | Some t \<Rightarrow>
          if t = [] then scan_parts e ps
          else (case json_loads e t of
                  Some v \<Rightarrow> Inr v
                | None \<Rightarrow> Inl (Exc ValueError (''Gemini response is not valid JSON: '' @ t))))"

text \<open>
  \<^verbatim>\<open>candidate.content.parts\<close> on line 134, read without a check: a candidate without
  content has no attribute \<^verbatim>\<open>parts\<close>, and parts that are \<^verbatim>\<open>None\<close> cannot be iterated.
\<close>

definition parts_of :: "candidate \<Rightarrow> exc + part list" where
  "parts_of candidate =
     (case candidate_content candidate of
        None \<Rightarrow> Inl (Exc AttributeError
                  (quoted ''NoneType'' @ '' object has no attribute '' @ quoted ''parts''))
      | Some content \<Rightarrow>
          (case content_parts content of
             None \<Rightarrow> Inl (Exc TypeError (quoted ''NoneType'' @ '' object is not iterable''))
           | Some ps \<Rightarrow> Inr ps))"

text \<open>Line 129: \<^verbatim>\<open>None\<close> and the empty list are the same to \<^verbatim>\<open>not\<close>.\<close>

definition first_candidate :: "gen_response \<Rightarrow> candidate option" where
  "first_candidate response =
     (case candidates response of
        None \<Rightarrow> None
      | Some cs \<Rightarrow> (case cs of [] \<Rightarrow> None | candidate # _ \<Rightarrow> Some candidate))"

definition call_gemini :: "env \<Rightarrow> bytes \<Rightarrow> string \<Rightarrow> state \<Rightarrow> (exc + json) \<times> state" where
  "call_gemini e image_bytes model_id s =
     (case get_gemini_client e s of
        (Inl x, s1) \<Rightarrow> (Inl x, s1)
      | (Inr client, s1) \<Rightarrow>
          (case generate_content e client model_id image_bytes of
             Inl x \<Rightarrow> (Inl x, issue e (GenerateContent client model_id image_bytes) s1)
           | Inr response \<Rightarrow>
               (case first_candidate response of
                  None \<Rightarrow> (Inl (Exc RuntimeError ''Gemini returned no candidates''),
                           issue e (GenerateContent client model_id image_bytes) s1)
                | Some candidate \<Rightarrow>
                    (case parts_of candidate of
                       Inl x \<Rightarrow>
                         (Inl x, issue e (GenerateContent client model_id image_bytes) s1)
                     | Inr ps \<Rightarrow>
                         (scan_parts e ps,
                          issue e (GenerateContent client model_id image_bytes) s1)))))"

text \<open>The dict \<^verbatim>\<open>payload\<close> of \<^verbatim>\<open>_update_ai_metadata\<close>, built at clock reading \<open>t\<close>.\<close>

definition update_payload :: "env \<Rightarrow> json \<Rightarrow> nat \<Rightarrow> json" where
  "update_payload e metadata t =
     JObj [(''ai_metadata'', metadata), (''updated_at'', JStr (isoformat e t))]"

definition update_ai_metadata :: "env \<Rightarrow> json \<Rightarrow> json \<Rightarrow> state \<Rightarrow> (exc + unit) \<times> state" where
  "update_ai_metadata e image_id metadata s =
     (case get_supabase_client e s of
        (Inl x, s1) \<Rightarrow> (Inl x, s1)
      | (Inr client, s1) \<Rightarrow>
          (let payload = update_payload e metadata (clock s1)
           in (case execute_update e client payload image_id of
                 None \<Rightarrow> (Inr (), issue e (Update client payload image_id) s1)
               | Some x \<Rightarrow>
                   if cls x = APIError
                   then (Inl (Exc RuntimeError
                           (''Failed to update product_images.ai_metadata: '' @ str_of x)),
                         issue e (Update client payload image_id) s1)
                   else (Inl x, issue e (Update client payload image_id) s1))))"

text \<open>
  Lines 160 to 165 of \<^verbatim>\<open>_analyze\<close>: the derived URL and the record, which stays
  \<^verbatim>\<open>None\<close> when no id was given.
\<close>

definition resolve_input ::
  "env \<Rightarrow> json \<Rightarrow> json \<Rightarrow> state \<Rightarrow> (exc + json \<times> json option) \<times> state" where
  "resolve_input e image_id image_url s =
     (if truthy image_id
      then (case fetch_product_image_record e image_id s of
              (Inl x, s1) \<Rightarrow> (Inl x, s1)
            | (Inr record, s1) \<Rightarrow>
                (case select_image_url record of
                   Inl x \<Rightarrow> (Inl x, s1)
                 | Inr derived_url \<Rightarrow> (Inr (derived_url, Some record), s1)))
      else (Inr (image_url, None), s))"

definition model_id_of :: "env \<Rightarrow> string" where
  "model_id_of e =
     (case environ e ''GEMINI_MODEL_ID'' of None \<Rightarrow> ''gemini-2.5-flash'' | Some m \<Rightarrow> m)"

definition analyze :: "env \<Rightarrow> json \<Rightarrow> json \<Rightarrow> state \<Rightarrow> (exc + json) \<times> state" where
  "analyze e image_id image_url s =
     (case resolve_input e image_id image_url s of
        (Inl x, s1) \<Rightarrow> (Inl x, s1)
      | (Inr (derived_url, record), s1) \<Rightarrow>
          if \<not> truthy derived_url
          then (Inl (Exc ValueError ''No image URL provided or found in Supabase record''), s1)
          else
            (case download_image e derived_url s1 of
               (Inl x, s2) \<Rightarrow> (Inl x, s2)
             | (Inr image_bytes, s2) \<Rightarrow>
                 (case call_gemini e image_bytes (model_id_of e) s2 of
                    (Inl x, s3) \<Rightarrow> (Inl x, s3)
                  | (Inr analysis, s3) \<Rightarrow>
                      (case (if truthy image_id \<and> record \<noteq> None
                             then update_ai_metadata e image_id analysis s3
                             else (Inr (), s3)) of
                         (Inl x, s4) \<Rightarrow> (Inl x, s4)
                       | (Inr u, s4) \<Rightarrow>
                           (Inr (JObj [(''source_image_url'', derived_url),
                                       (''analysis'', analysis)]), s4)))))"

subsection \<open>The HTTP entry point\<close>

text \<open>
  Of the request the handler reads \<^verbatim>\<open>request.method\<close> and \<^verbatim>\<open>get_json(silent=True)\<close>, which
  gives \<^verbatim>\<open>None\<close> for a body that is not JSON. The field for \<^verbatim>\<open>request.method\<close> is
  \<open>http_method\<close>, the plain name being a keyword of Isabelle. A response body is a plain
  text or \<^verbatim>\<open>json.dumps\<close> of a value, kept as that value.
\<close>

record request =
  http_method :: string
  get_json_silent :: "exc + json"

datatype body = Text string | JsonDumps json

record response =
  body :: body
  status :: nat
  headers :: "(string \<times> string) list"

definition json_response :: "json \<Rightarrow> nat \<Rightarrow> response" where
  "json_response v code =
     \<lparr>body = JsonDumps v, status = code, headers = [(''Content-Type'', ''application/json'')]\<rparr>"

definition error_body :: "string \<Rightarrow> json" where
  "error_body msg = JObj [(''error'', JStr msg)]"

definition analyze_product_image ::
  "env \<Rightarrow> request \<Rightarrow> state \<Rightarrow> (exc + response) \<times> state" where
  "analyze_product_image e req s =
     (if http_method req \<noteq> ''POST''
      then (Inr \<lparr>body = Text ''Method Not Allowed'', status = 405, headers = []\<rparr>, s)
      else
        (case get_json_silent req of
           Inl x \<Rightarrow> (Inr (json_response (error_body ''Invalid JSON body'') 400), s)
         | Inr v \<Rightarrow>
             (case py_get (py_or v (JObj [])) ''product_image_id'' of
                Inl x \<Rightarrow> (Inl x, s)
              | Inr image_id \<Rightarrow>
                  (case py_get (py_or v (JObj [])) ''image_url'' of
                     Inl x \<Rightarrow> (Inl x, s)
                   | Inr image_url \<Rightarrow>
                       (case analyze e image_id image_url s of
                          (Inl x, s1) \<Rightarrow>
                            if cls x = ValueError
                            then (Inr (json_response (error_body (str_of x)) 400), s1)
                            else (Inr (json_response (error_body (str_of x)) 500), s1)
                        | (Inr result, s1) \<Rightarrow> (Inr (json_response result 200), s1))))))"

section \<open>Notions used by the properties\<close>

text \<open>A write to the record store, and any call to it.\<close>

fun is_write :: "call \<Rightarrow> bool" where
  "is_write (Update c p i) = True"
| "is_write _ = False"

fun is_store_call :: "call \<Rightarrow> bool" where
  "is_store_call (Select c i) = True"
| "is_store_call (Update c p i) = True"
| "is_store_call _ = False"

text \<open>
  Modelled from the spec: the effect of an update on a row of the record store, an outside
  service whose code is not in the repository. Section 6 says the columns named in the
  payload are overwritten wholesale; the other columns of the row stay.
\<close>

definition store_update :: "json \<Rightarrow> (string \<times> json) list \<Rightarrow> (string \<times> json) list" where
  "store_update payload row =
     (case payload of
        JObj cols \<Rightarrow> cols @ filter (\<lambda>kv. fst kv \<notin> fst ` set cols) row
      | _ \<Rightarrow> row)"

text \<open>
  The reading of section 4.1 by its words: three candidates in order, \<^verbatim>\<open>thumbnail_url\<close>,
  \<^verbatim>\<open>primary_image_url\<close> and the first element of \<^verbatim>\<open>image_urls\<close>; the first non-empty
  one wins, and resolution fails when none of them is non-empty.
\<close>

definition url_candidates :: "(string \<times> json) list \<Rightarrow> json list" where
  "url_candidates r =
     [dict_get r ''thumbnail_url'', dict_get r ''primary_image_url'',
      (case dict_get r ''image_urls'' of
         JArr xs \<Rightarrow> (case xs of [] \<Rightarrow> JNull | u # _ \<Rightarrow> u)
       | _ \<Rightarrow> JNull)]"

definition first_non_empty :: "(string \<times> json) list \<Rightarrow> exc + json" where
  "first_non_empty r =
     (case List.find truthy (url_candidates r) of
        Some u \<Rightarrow> Inr u
      | None \<Rightarrow> Inl (Exc ValueError ''No usable image URL found in product_images record''))"

text \<open>
  The reading of section 4.4 by its words: the parsed value of the first segment whose text
  parses as JSON, segments that do not parse being passed over.
\<close>

fun first_parsing :: "env \<Rightarrow> part list \<Rightarrow> json option" where
  "first_parsing e [] = None"
| "first_parsing e (p # ps) =
     (case part_text p of
        None \<Rightarrow> first_parsing e ps
      | Some t \<Rightarrow> (case json_loads e t of Some v \<Rightarrow> Some v | None \<Rightarrow> first_parsing e ps))"

section \<open>An example world\<close>

text \<open>
  One environment for the concrete runs below: the store holds the row \<open>img1\<close>, whose
  thumbnail is empty, and the row \<open>img2\<close>, which has no image at all; every download
  succeeds but that of \<^verbatim>\<open>https://x/gone.jpg\<close>; the model answers with one candidate of
  the given parts; the parser knows the two JSON texts the runs use and rejects the rest;
  the update raises what is passed in. Every outside call takes one tick of the clock, and
  the clock rendering is that of the instants the runs reach, counted in microseconds from
  the epoch.
\<close>

definition mango_text :: string where
  \<open>mango_text =
     ''{"title":"Mango Sorbet Cup","category":"sorbet","price_inr":150,"description":"..."}''\<close>

definition mango :: json where
  "mango = JObj [(''title'', JStr ''Mango Sorbet Cup''), (''category'', JStr ''sorbet''),
                 (''price_inr'', JInt 150), (''description'', JStr ''...'')]"

definition demo_row :: json where
  "demo_row = JObj [(''id'', JStr ''img1''), (''thumbnail_url'', JStr []),
                    (''primary_image_url'', JStr ''https://x/p.jpg''),
                    (''image_urls'', JArr [JStr ''https://x/1.jpg'']),
                    (''ai_metadata'', JObj [(''title'', JStr ''old'')])]"

definition bare_row :: json where
  "bare_row = JObj [(''id'', JStr ''img2''), (''thumbnail_url'', JNull), (''image_urls'', JArr [])]"

definition demo_env :: "part list \<Rightarrow> exc option \<Rightarrow> env" where
  "demo_env ps upd =
     \<lparr>environ = map_of [(''SUPABASE_URL'', ''https://db.example''),
                         (''SUPABASE_SERVICE_ROLE_KEY'', ''service-key''),
                         (''GEMINI_API_KEY'', ''api-key'')],
      create_client_raises = (\<lambda>url key. None),
      genai_Client_raises = (\<lambda>key. None),
      execute_select = (\<lambda>c i. if i = JStr ''img1'' then Inr [demo_row]
                             else if i = JStr ''img2'' then Inr [bare_row] else Inr []),
      single_error_text = (\<lambda>rows. ''JSON object requested, multiple (or no) rows returned''),
      requests_get = (\<lambda>u. if u = JStr ''https://x/gone.jpg''
                           then Inl (Exc OtherException
                                  ''404 Client Error: Not Found for url: https://x/gone.jpg'')
                           else Inr [0xFF, 0xD8]),
      generate_content =
        (\<lambda>c m b. Inr (GenResponse (Some [Candidate (Some (Content (Some ps)))]))),
      json_loads = (\<lambda>t. if t = mango_text then Some mango
                         else if t = ''{}'' then Some (JObj []) else None),
      execute_update = (\<lambda>c p i. upd),
      duration = (\<lambda>c. 1),
      isoformat = (\<lambda>t. if t = 3 then ''1970-01-01T00:00:00.000003+00:00''
                        else ''1970-01-01T00:00:00+00:00''),
      py_repr = (\<lambda>v. ''None'')\<rparr>"

definition s0 :: state where
  "s0 = \<lparr>supabase_client = None, gemini_client = None, clock = 0, calls = []\<rparr>"

definition post :: "json \<Rightarrow> request" where
  "post v = \<lparr>http_method = ''POST'', get_json_silent = Inr v\<rparr>"

section \<open>What each function does to the state\<close>

lemma get_supabase_client_frame:
  "get_supabase_client e s = (r, s1) \<Longrightarrow>
     calls s1 = calls s \<and> clock s1 = clock s \<and> gemini_client s1 = gemini_client s"
  by (auto simp: get_supabase_client_def split: option.splits)

lemma get_supabase_client_cached:
  "get_supabase_client e s = (Inr c, s1) \<Longrightarrow> supabase_client s1 = Some c"
  by (auto simp: get_supabase_client_def split: option.splits)

lemma get_supabase_client_hit:
  "supabase_client s = Some c \<Longrightarrow> get_supabase_client e s = (Inr c, s)"
  by (simp add: get_supabase_client_def)

lemma get_gemini_client_frame:
  "get_gemini_client e s = (r, s1) \<Longrightarrow>
     calls s1 = calls s \<and> clock s1 = clock s \<and> supabase_client s1 = supabase_client s"
  by (auto simp: get_gemini_client_def split: option.splits)

lemma fetch_frame:
  assumes "fetch_product_image_record e i s = (r, s1)"
  shows "filter is_write (calls s1) = filter is_write (calls s)"
    and "clock s \<le> clock s1"
    and "gemini_client s1 = gemini_client s"
  using assms
  by (auto simp: fetch_product_image_record_def issue_def
      dest!: get_supabase_client_frame split: prod.splits sum.splits list.splits if_splits)

lemma fetch_success:
  assumes "fetch_product_image_record e i s = (Inr row, s1)"
  shows "\<exists>c. supabase_client s1 = Some c" and "truthy row"
  using assms
  by (auto simp: fetch_product_image_record_def issue_def
      dest!: get_supabase_client_cached split: prod.splits sum.splits list.splits if_splits)

lemma download_frame:
  assumes "download_image e u s = (r, s1)"
  shows "calls s1 = calls s @ [HttpGet u]"
    and "clock s \<le> clock s1"
    and "supabase_client s1 = supabase_client s"
  using assms
  by (auto simp: download_image_def issue_def split: sum.splits)

lemma call_gemini_frame:
  assumes "call_gemini e b m s = (r, s1)"
  shows "filter is_store_call (calls s1) = filter is_store_call (calls s)"
    and "filter is_write (calls s1) = filter is_write (calls s)"
    and "clock s \<le> clock s1"
    and "supabase_client s1 = supabase_client s"
  using assms
  by (auto simp: call_gemini_def issue_def
      dest!: get_gemini_client_frame split: prod.splits sum.splits option.splits)

lemma call_gemini_calls:
  assumes "call_gemini e b m s = (r, s1)"
  shows "\<exists>rest. calls s1 = calls s @ rest"
  using assms
  by (auto simp: call_gemini_def issue_def
      dest!: get_gemini_client_frame split: prod.splits sum.splits option.splits)

lemma update_result:
  assumes "supabase_client s = Some c"
  shows "update_ai_metadata e i a s =
     (case execute_update e c (update_payload e a (clock s)) i of
        None \<Rightarrow> Inr ()
      | Some x \<Rightarrow>
          if cls x = APIError
          then Inl (Exc RuntimeError
                 (''Failed to update product_images.ai_metadata: '' @ str_of x))
          else Inl x,
      issue e (Update c (update_payload e a (clock s)) i) s)"
  using assms
  by (simp add: update_ai_metadata_def get_supabase_client_hit split: option.splits)

lemma store_update_columns:
  "dict_get (store_update (update_payload e a t) row) ''ai_metadata'' = a"
  "dict_get (store_update (update_payload e a t) row) ''updated_at'' = JStr (isoformat e t)"
  by (simp_all add: store_update_def update_payload_def dict_get_def)

subsection \<open>Dicts\<close>

lemma py_or_dict [simp]: "py_or (JObj kvs) (JObj []) = JObj kvs"
  by (cases kvs) (simp_all add: py_or_def)

lemma dict_get_absent: "map_of kvs k = None \<Longrightarrow> dict_get kvs k = JNull"
  by (simp add: dict_get_def)

lemma dict_get_filter_other:
  "k \<noteq> k' \<Longrightarrow> dict_get (filter (\<lambda>kv. fst kv \<noteq> k') kvs) k = dict_get kvs k"
  by (induction kvs) (auto simp: dict_get_def)

lemma dict_get_filter_same:
  "dict_get (filter (\<lambda>kv. fst kv \<noteq> k) kvs) k = JNull"
  by (induction kvs) (auto simp: dict_get_def)

lemma write_is_store_call: "(is_store_call c \<and> is_write c) = is_write c"
  by (cases c) simp_all

subsection \<open>The pipeline without a record id\<close>

lemma analyze_no_id:
  assumes "\<not> truthy image_id"
  shows "analyze e image_id image_url s =
     (if \<not> truthy image_url
      then (Inl (Exc ValueError ''No image URL provided or found in Supabase record''), s)
      else
        (case download_image e image_url s of
           (Inl x, s2) \<Rightarrow> (Inl x, s2)
         | (Inr image_bytes, s2) \<Rightarrow>
             (case call_gemini e image_bytes (model_id_of e) s2 of
                (Inl x, s3) \<Rightarrow> (Inl x, s3)
              | (Inr analysis, s3) \<Rightarrow>
                  (Inr (JObj [(''source_image_url'', image_url), (''analysis'', analysis)]), s3))))"
  using assms
  by (simp add: analyze_def resolve_input_def split: prod.splits sum.splits)

lemma analyze_falsy_id:
  assumes "\<not> truthy i" and "\<not> truthy j"
  shows "analyze e i image_url s = analyze e j image_url s"
  using assms by (simp add: analyze_no_id)

lemma analyze_no_id_store:
  assumes "\<not> truthy image_id"
  shows "filter is_store_call (calls (snd (analyze e image_id image_url s))) =
         filter is_store_call (calls s)"
proof (cases "truthy image_url")
  case False
  with assms show ?thesis by (simp add: analyze_no_id)
next
  case True
  obtain r2 s2 where d: "download_image e image_url s = (r2, s2)"
    by (cases "download_image e image_url s")
  have c2: "filter is_store_call (calls s2) = filter is_store_call (calls s)"
    using download_frame(1) [OF d] by simp
  show ?thesis
  proof (cases r2)
    case (Inl x)
    with assms True d c2 show ?thesis by (simp add: analyze_no_id)
  next
    case (Inr image_bytes)
    obtain r3 s3 where g: "call_gemini e image_bytes (model_id_of e) s2 = (r3, s3)"
      by (cases "call_gemini e image_bytes (model_id_of e) s2")
    have "filter is_store_call (calls s3) = filter is_store_call (calls s)"
      using call_gemini_frame(1) [OF g] c2 by simp
    with assms True d Inr g show ?thesis
      by (cases r3) (simp_all add: analyze_no_id)
  qed
qed

lemma analyze_no_id_writes:
  assumes "\<not> truthy image_id"
  shows "filter is_write (calls (snd (analyze e image_id image_url s))) =
         filter is_write (calls s)"
  using arg_cong [OF analyze_no_id_store [OF assms, of e image_url s], of "filter is_write"]
  by (simp add: write_is_store_call)

lemma analyze_no_id_download:
  assumes "\<not> truthy image_id" and "truthy image_url"
  shows "\<exists>rest. calls (snd (analyze e image_id image_url s)) =
                  calls s @ HttpGet image_url # rest"
proof -
  obtain r2 s2 where d: "download_image e image_url s = (r2, s2)"
    by (cases "download_image e image_url s")
  show ?thesis
  proof (cases r2)
    case (Inl x)
    with assms d download_frame(1) [OF d] show ?thesis by (simp add: analyze_no_id)
  next
    case (Inr image_bytes)
    obtain r3 s3 where g: "call_gemini e image_bytes (model_id_of e) s2 = (r3, s3)"
      by (cases "call_gemini e image_bytes (model_id_of e) s2")
    from call_gemini_calls [OF g] obtain rest where "calls s3 = calls s2 @ rest" ..
    with download_frame(1) [OF d] have "calls s3 = calls s @ HttpGet image_url # rest"
      by simp
    with assms d Inr g show ?thesis
      by (cases r3) (simp_all add: analyze_no_id)
  qed
qed

lemma analyze_no_id_result:
  assumes "\<not> truthy image_id" and "analyze e image_id image_url s = (Inr result, s')"
  shows "\<exists>a. result = JObj [(''source_image_url'', image_url), (''analysis'', a)]"
  using assms
  by (auto simp: analyze_no_id split: if_splits prod.splits sum.splits)

subsection \<open>The pipeline from a record id\<close>

lemma analyze_id_chain:
  assumes "truthy image_id"
    and "analyze e image_id image_url s = (Inr result, s')"
  shows "\<exists>row s1 url s2 image_bytes a s3 c.
           fetch_product_image_record e image_id s = (Inr row, s1)
         \<and> select_image_url row = Inr url \<and> truthy url
         \<and> download_image e url s1 = (Inr image_bytes, s2)
         \<and> call_gemini e image_bytes (model_id_of e) s2 = (Inr a, s3)
         \<and> supabase_client s3 = Some c
         \<and> execute_update e c (update_payload e a (clock s3)) image_id = None
         \<and> s' = issue e (Update c (update_payload e a (clock s3)) image_id) s3
         \<and> result = JObj [(''source_image_url'', url), (''analysis'', a)]"
proof -
  from assms obtain row s1 url s2 image_bytes a s3 u where
    f: "fetch_product_image_record e image_id s = (Inr row, s1)" and
    sel: "select_image_url row = Inr url" and tu: "truthy url" and
    d: "download_image e url s1 = (Inr image_bytes, s2)" and
    g: "call_gemini e image_bytes (model_id_of e) s2 = (Inr a, s3)" and
    up: "update_ai_metadata e image_id a s3 = (Inr u, s')" and
    res: "result = JObj [(''source_image_url'', url), (''analysis'', a)]"
    by (auto simp: analyze_def resolve_input_def split: prod.splits sum.splits if_splits)
  from fetch_success(1) [OF f] obtain c where c1: "supabase_client s1 = Some c" ..
  have c3: "supabase_client s3 = Some c"
    using c1 download_frame(3) [OF d] call_gemini_frame(4) [OF g] by simp
  from up have "execute_update e c (update_payload e a (clock s3)) image_id = None
      \<and> s' = issue e (Update c (update_payload e a (clock s3)) image_id) s3"
    by (auto simp: update_result [OF c3] split: option.splits if_splits)
  with f sel tu d g c3 res show ?thesis by blast
qed

subsection \<open>The handler on a POST with a dict payload\<close>

lemma handler_post:
  assumes "http_method req = ''POST''" and "get_json_silent req = Inr (JObj kvs)"
  shows "analyze_product_image e req s =
     (case analyze e (dict_get kvs ''product_image_id'') (dict_get kvs ''image_url'') s of
        (Inl x, s1) \<Rightarrow>
          (Inr (json_response (error_body (str_of x))
                 (if cls x = ValueError then 400 else 500)), s1)
      | (Inr result, s1) \<Rightarrow> (Inr (json_response result 200), s1))"
  using assms
  by (simp add: analyze_product_image_def py_get_def split: prod.splits sum.splits)

lemma handler_calls:
  assumes "get_json_silent req = Inr (JObj kvs)"
  shows "calls (snd (analyze_product_image e req s)) = calls s
       \<or> calls (snd (analyze_product_image e req s)) =
           calls (snd (analyze e (dict_get kvs ''product_image_id'')
                         (dict_get kvs ''image_url'') s))"
  using assms
  by (simp add: analyze_product_image_def py_get_def split: prod.splits sum.splits)

lemma handler_success:
  assumes "http_method req = ''POST''" and "get_json_silent req = Inr (JObj kvs)"
    and "analyze_product_image e req s = (Inr resp, s')" and "status resp = 200"
  shows "\<exists>result. analyze e (dict_get kvs ''product_image_id'') (dict_get kvs ''image_url'') s =
                     (Inr result, s')
                 \<and> resp = json_response result 200"
proof -
  obtain r1 s1 where
    a: "analyze e (dict_get kvs ''product_image_id'') (dict_get kvs ''image_url'') s = (r1, s1)"
    by (cases "analyze e (dict_get kvs ''product_image_id'') (dict_get kvs ''image_url'') s")
  show ?thesis
  proof (cases r1)
    case (Inl x)
    with handler_post [OF assms(1,2), of e s] a assms(3,4) show ?thesis
      by (auto simp: json_response_def split: if_splits)
  next
    case (Inr result)
    with handler_post [OF assms(1,2), of e s] a assms(3) show ?thesis by auto
  qed
qed

subsection \<open>The runs of the example world\<close>

lemma demo_post:
  "http_method (post v) = ''POST''" "get_json_silent (post v) = Inr v"
  by (simp_all add: post_def)

lemmas demo_defs =
  post_def s0_def demo_env_def demo_row_def analyze_product_image_def analyze_def
  resolve_input_def fetch_product_image_record_def get_supabase_client_def
  select_image_url_def py_get_def dict_get_def py_or_def index0_def download_image_def
  call_gemini_def first_candidate_def parts_of_def get_gemini_client_def
  update_ai_metadata_def update_payload_def issue_def bare_row_def
  model_id_of_def mango_text_def json_response_def error_body_def

section \<open>The properties\<close>

subsection \<open>C1: the order of the image fields\<close>

text \<open>
  C1, as amended. For every record, \<^verbatim>\<open>_select_image_url\<close> goes through the fields in the
  order \<^verbatim>\<open>thumbnail_url\<close>, \<^verbatim>\<open>primary_image_url\<close>, \<^verbatim>\<open>image_urls\<close>: a non-empty thumbnail is
  returned whatever the other fields hold; with an empty or absent thumbnail a non-empty
  primary URL is returned; with both empty a non-empty list \<^verbatim>\<open>image_urls\<close> gives its first
  element, whatever that element is; and the function raises the \<^verbatim>\<open>ValueError\<close> that no
  usable image URL was found when the three fields, the list itself among them, are all
  empty or absent.
\<close>

theorem select_image_url_priority:
  "(truthy (dict_get r ''thumbnail_url'') \<longrightarrow>
      select_image_url (JObj r) = Inr (dict_get r ''thumbnail_url''))
 \<and> (\<not> truthy (dict_get r ''thumbnail_url'') \<and> truthy (dict_get r ''primary_image_url'') \<longrightarrow>
      select_image_url (JObj r) = Inr (dict_get r ''primary_image_url''))
 \<and> (\<not> truthy (dict_get r ''thumbnail_url'') \<and> \<not> truthy (dict_get r ''primary_image_url'')
      \<and> dict_get r ''image_urls'' = JArr (u # us) \<longrightarrow>
      select_image_url (JObj r) = Inr u)
 \<and> (\<not> truthy (dict_get r ''thumbnail_url'') \<and> \<not> truthy (dict_get r ''primary_image_url'')
      \<and> \<not> truthy (dict_get r ''image_urls'') \<longrightarrow>
      select_image_url (JObj r) =
        Inl (Exc ValueError ''No usable image URL found in product_images record''))"
  by (simp add: select_image_url_def py_get_def py_or_def index0_def)

text \<open>Four records, one for each case.\<close>

theorem select_image_url_priority_witness:
  "select_image_url (JObj [(''thumbnail_url'', JStr ''https://x/t.jpg''),
                           (''primary_image_url'', JStr ''https://x/p.jpg''),
                           (''image_urls'', JArr [JStr ''https://x/1.jpg''])]) =
     Inr (JStr ''https://x/t.jpg'')
 \<and> select_image_url (JObj [(''thumbnail_url'', JStr []),
                           (''primary_image_url'', JStr ''https://x/p.jpg''),
                           (''image_urls'', JArr [JStr ''https://x/1.jpg''])]) =
     Inr (JStr ''https://x/p.jpg'')
 \<and> select_image_url (JObj [(''primary_image_url'', JNull),
                           (''image_urls'', JArr [JStr ''https://x/1.jpg'', JStr ''https://x/2.jpg''])]) =
     Inr (JStr ''https://x/1.jpg'')
 \<and> select_image_url (JObj [(''thumbnail_url'', JStr []), (''image_urls'', JArr [])]) =
     Inl (Exc ValueError ''No usable image URL found in product_images record'')"
  using select_image_url_priority [of "[(''thumbnail_url'', JStr ''https://x/t.jpg''),
                           (''primary_image_url'', JStr ''https://x/p.jpg''),
                           (''image_urls'', JArr [JStr ''https://x/1.jpg''])]"]
    select_image_url_priority [of "[(''thumbnail_url'', JStr []),
                           (''primary_image_url'', JStr ''https://x/p.jpg''),
                           (''image_urls'', JArr [JStr ''https://x/1.jpg''])]"]
    select_image_url_priority [of "[(''primary_image_url'', JNull),
                           (''image_urls'', JArr [JStr ''https://x/1.jpg'', JStr ''https://x/2.jpg''])]"
      "JStr ''https://x/1.jpg''" "[JStr ''https://x/2.jpg'']"]
    select_image_url_priority [of "[(''thumbnail_url'', JStr []), (''image_urls'', JArr [])]"]
  by (simp add: dict_get_def)

text \<open>
  C1 as the spec words it fails on a record whose only image field is a list with an
  empty first element: none of the three candidates is non-empty, so the words have
  resolution fail, yet the function returns the empty string; the test of line 77 is on
  the list, not on its first element.
\<close>

theorem empty_first_image_url_counterexample:
  "first_non_empty [(''image_urls'', JArr [JStr []])] =
     Inl (Exc ValueError ''No usable image URL found in product_images record'')
 \<and> select_image_url (JObj [(''image_urls'', JArr [JStr []])]) = Inr (JStr [])"
  by (simp add: first_non_empty_def url_candidates_def select_image_url_def py_get_def
      py_or_def index0_def dict_get_def)

subsection \<open>C2: model text that is not JSON\<close>

text \<open>
  C2. The spec has a text segment of the model that does not parse as JSON answered with
  status 500 and a message holding the raw text. In the code \<^verbatim>\<open>_call_gemini\<close> raises
  \<^verbatim>\<open>ValueError\<close> for it, and the handler answers every \<^verbatim>\<open>ValueError\<close> with 400: a POST of
  \<^verbatim>\<open>{"image_url": "https://x/img.jpg"}\<close> whose model answer is the single text
  \<^verbatim>\<open>not json\<close> gets status 400. The message does hold the raw text.
\<close>

theorem invalid_model_json_gets_400:
  "fst (analyze_product_image (demo_env [Part (Some ''not json'')] None)
          (post (JObj [(''image_url'', JStr ''https://x/img.jpg'')])) s0) =
     Inr \<lparr>body = JsonDumps (JObj [(''error'',
             JStr ''Gemini response is not valid JSON: not json'')]),
          status = 400, headers = [(''Content-Type'', ''application/json'')]\<rparr>"
  by (simp add: demo_defs)

subsection \<open>C3: a record id the store does not know\<close>

text \<open>
  C3. The spec has a POST whose record id the store does not hold answered with status 400
  and the message \<^verbatim>\<open>No product_images row found for id '<id>'\<close>, and lines 60 and 61 are
  written to raise just that. But the query of line 56 asks for \<^verbatim>\<open>single()\<close>: for no
  row the store client raises its \<^verbatim>\<open>APIError\<close> from \<^verbatim>\<open>execute()\<close>, line 60 is not reached,
  and the handler answers with status 500 and the text of that error. So does the POST of
  \<^verbatim>\<open>{"product_image_id": "abc"}\<close> to the example store, which has no such row.
\<close>

theorem unknown_id_gets_500:
  "execute_select (demo_env [] None)
     (SupabaseClient ''https://db.example'' ''service-key'') (JStr ''abc'') = Inr []
 \<and> fst (analyze_product_image (demo_env [] None)
          (post (JObj [(''product_image_id'', JStr ''abc'')])) s0) =
     Inr \<lparr>body = JsonDumps (JObj [(''error'',
             JStr ''JSON object requested, multiple (or no) rows returned'')]),
          status = 500, headers = [(''Content-Type'', ''application/json'')]\<rparr>"
  by (simp add: demo_defs)

subsection \<open>C4: reading the answer of the model\<close>

text \<open>
  C4. The spec, like the comment on line 132, has the engine return the parsed value of
  the first segment whose text parses as JSON. The loop of lines 134 to 139 raises at the
  first segment whose text does not parse and never reads a later one: with the segments
  \<^verbatim>\<open>not json\<close> and then the mango JSON, the first segment whose text parses is the second,
  yet the call raises the \<^verbatim>\<open>ValueError\<close> for the first.
\<close>

theorem later_json_part_is_not_read:
  "first_parsing (demo_env [Part (Some ''not json''), Part (Some mango_text)] None)
     [Part (Some ''not json''), Part (Some mango_text)] = Some mango
 \<and> fst (call_gemini (demo_env [Part (Some ''not json''), Part (Some mango_text)] None)
          [0xFF, 0xD8] ''gemini-2.5-flash'' s0) =
     Inl (Exc ValueError ''Gemini response is not valid JSON: not json'')"
  by (simp add: demo_env_def s0_def call_gemini_def first_candidate_def parts_of_def
      get_gemini_client_def mango_text_def)

text \<open>
  The same lines read \<^verbatim>\<open>candidate.content.parts\<close> without a check: a candidate that
  comes without content ends the call with an \<^verbatim>\<open>AttributeError\<close>, which is none of the
  three errors of section 4.4.
\<close>

lemma candidate_without_content:
  assumes "get_gemini_client e s = (Inr c, s1)"
    and "generate_content e c model_id image_bytes = Inr (GenResponse (Some [Candidate None]))"
  shows "fst (call_gemini e image_bytes model_id s) =
     Inl (Exc AttributeError
           ([CHR 0x27] @ ''NoneType' object has no attribute 'parts'' @ [CHR 0x27]))"
  using assms
  by (simp add: call_gemini_def first_candidate_def parts_of_def quoted_def quote_def)

subsection \<open>C5: methods other than POST\<close>

text \<open>
  C5, as amended. For every request whose method is not POST the handler answers with
  status 405 and the plain text body \<^verbatim>\<open>Method Not Allowed\<close>, sets no header, and runs no
  stage of the pipeline: the state, and with it the list of outside calls, is unchanged.
\<close>

theorem method_not_allowed:
  assumes "http_method req \<noteq> ''POST''"
  shows "analyze_product_image e req s =
           (Inr \<lparr>body = Text ''Method Not Allowed'', status = 405, headers = []\<rparr>, s)"
  using assms by (simp add: analyze_product_image_def)

theorem method_not_allowed_witness:
  "http_method \<lparr>http_method = ''GET'', get_json_silent = Inr JNull\<rparr> \<noteq> ''POST''
 \<and> analyze_product_image (demo_env [] None) \<lparr>http_method = ''GET'', get_json_silent = Inr JNull\<rparr> s0 =
     (Inr \<lparr>body = Text ''Method Not Allowed'', status = 405, headers = []\<rparr>, s0)"
  using method_not_allowed [of "\<lparr>http_method = ''GET'', get_json_silent = Inr JNull\<rparr>"
      "demo_env [] None" s0]
  by simp

text \<open>C5 as the spec words it: the body of the answer to a GET is not empty.\<close>

theorem empty_reason_body_counterexample:
  "fst (analyze_product_image (demo_env [] None)
          \<lparr>http_method = ''GET'', get_json_silent = Inr JNull\<rparr> s0) =
     Inr \<lparr>body = Text ''Method Not Allowed'', status = 405, headers = []\<rparr>
 \<and> body \<lparr>body = Text ''Method Not Allowed'', status = 405, headers = []\<rparr> \<noteq> Text []"
  by (simp add: analyze_product_image_def)

subsection \<open>C6: what is written back\<close>

text \<open>
  C6. For every POST with a record id that is answered with status 200, the request issued
  exactly one write to the store: an update of the row with that id whose \<^verbatim>\<open>ai_metadata\<close>
  is the analysis of the response body and whose \<^verbatim>\<open>updated_at\<close> is the ISO rendering of
  a UTC clock reading taken between the start and the end of the request; the store
  accepted it. Applied to any row, the update leaves \<^verbatim>\<open>ai_metadata\<close> equal to that
  analysis whatever the row held before.
\<close>

theorem persisted_metadata_is_returned_analysis:
  assumes "http_method req = ''POST''" and "get_json_silent req = Inr (JObj kvs)"
    and "truthy (dict_get kvs ''product_image_id'')"
    and "analyze_product_image e req s = (Inr resp, s')" and "status resp = 200"
  shows "\<exists>url a c t.
           body resp = JsonDumps (JObj [(''source_image_url'', url), (''analysis'', a)])
         \<and> filter is_write (calls s') =
             filter is_write (calls s) @
               [Update c (update_payload e a t) (dict_get kvs ''product_image_id'')]
         \<and> execute_update e c (update_payload e a t) (dict_get kvs ''product_image_id'') = None
         \<and> clock s \<le> t \<and> t \<le> clock s'
         \<and> (\<forall>row. dict_get (store_update (update_payload e a t) row) ''ai_metadata'' = a
                 \<and> dict_get (store_update (update_payload e a t) row) ''updated_at'' =
                     JStr (isoformat e t))"
proof -
  let ?id = "dict_get kvs ''product_image_id''"
  from handler_success [OF assms(1,2,4,5)] obtain result where
    an: "analyze e ?id (dict_get kvs ''image_url'') s = (Inr result, s')" and
    rp: "resp = json_response result 200"
    by blast
  from analyze_id_chain [OF assms(3) an] obtain row s1 url s2 image_bytes a s3 c where
    f: "fetch_product_image_record e ?id s = (Inr row, s1)" and
    d: "download_image e url s1 = (Inr image_bytes, s2)" and
    g: "call_gemini e image_bytes (model_id_of e) s2 = (Inr a, s3)" and
    up: "execute_update e c (update_payload e a (clock s3)) ?id = None" and
    s': "s' = issue e (Update c (update_payload e a (clock s3)) ?id) s3" and
    res: "result = JObj [(''source_image_url'', url), (''analysis'', a)]"
    by blast
  have w: "filter is_write (calls s3) = filter is_write (calls s)"
    using fetch_frame(1) [OF f] download_frame(1) [OF d] call_gemini_frame(2) [OF g] by simp
  have t: "clock s \<le> clock s3"
    using fetch_frame(2) [OF f] download_frame(2) [OF d] call_gemini_frame(3) [OF g] by simp
  have "body resp = JsonDumps (JObj [(''source_image_url'', url), (''analysis'', a)])"
    using rp res by (simp add: json_response_def)
  moreover have "filter is_write (calls s') =
      filter is_write (calls s) @ [Update c (update_payload e a (clock s3)) ?id]"
    using s' w by (simp add: issue_def)
  moreover have "clock s3 \<le> clock s'"
    using s' by (simp add: issue_def)
  ultimately show ?thesis
    using up t store_update_columns by blast
qed

text \<open>
  The row \<open>img1\<close> of the example store, which held an older \<^verbatim>\<open>ai_metadata\<close>: the one
  write carries the analysis of the response and the clock reading after three calls.
\<close>

theorem persisted_metadata_is_returned_analysis_witness:
  "truthy (dict_get [(''product_image_id'', JStr ''img1'')] ''product_image_id'')
 \<and> fst (analyze_product_image (demo_env [Part (Some mango_text)] None)
          (post (JObj [(''product_image_id'', JStr ''img1'')])) s0) =
     Inr (json_response
           (JObj [(''source_image_url'', JStr ''https://x/p.jpg''), (''analysis'', mango)]) 200)
 \<and> filter is_write (calls (snd (analyze_product_image (demo_env [Part (Some mango_text)] None)
          (post (JObj [(''product_image_id'', JStr ''img1'')])) s0))) =
     [Update (SupabaseClient ''https://db.example'' ''service-key'')
        (JObj [(''ai_metadata'', mango),
               (''updated_at'', JStr ''1970-01-01T00:00:00.000003+00:00'')])
        (JStr ''img1'')]
 \<and> (\<exists>url a c t.
       filter is_write (calls (snd (analyze_product_image (demo_env [Part (Some mango_text)] None)
          (post (JObj [(''product_image_id'', JStr ''img1'')])) s0))) =
         [Update c (update_payload (demo_env [Part (Some mango_text)] None) a t) (JStr ''img1'')]
     \<and> json_response (JObj [(''source_image_url'', JStr ''https://x/p.jpg''),
                             (''analysis'', mango)]) 200 =
         json_response (JObj [(''source_image_url'', url), (''analysis'', a)]) 200)"
proof -
  let ?E = "demo_env [Part (Some mango_text)] None"
  let ?req = "post (JObj [(''product_image_id'', JStr ''img1'')])"
  let ?resp = "json_response
     (JObj [(''source_image_url'', JStr ''https://x/p.jpg''), (''analysis'', mango)]) 200"
  have i: "dict_get [(''product_image_id'', JStr ''img1'')] ''product_image_id'' = JStr ''img1''"
    by (simp add: dict_get_def)
  have tr: "truthy (dict_get [(''product_image_id'', JStr ''img1'')] ''product_image_id'')"
    by (simp add: i)
  have r: "fst (analyze_product_image ?E ?req s0) = Inr ?resp"
    by (simp add: demo_defs)
  have w: "filter is_write (calls (snd (analyze_product_image ?E ?req s0))) =
     [Update (SupabaseClient ''https://db.example'' ''service-key'')
        (JObj [(''ai_metadata'', mango),
               (''updated_at'', JStr ''1970-01-01T00:00:00.000003+00:00'')])
        (JStr ''img1'')]"
    by (simp add: demo_defs)
  from r have run: "analyze_product_image ?E ?req s0 =
      (Inr ?resp, snd (analyze_product_image ?E ?req s0))"
    by (metis prod.collapse)
  have st: "status ?resp = 200" by (simp add: json_response_def)
  from persisted_metadata_is_returned_analysis [OF demo_post tr run st]
  obtain url a c t where
    "body ?resp = JsonDumps (JObj [(''source_image_url'', url), (''analysis'', a)])" and
    "filter is_write (calls (snd (analyze_product_image ?E ?req s0))) =
       filter is_write (calls s0) @ [Update c (update_payload ?E a t) (JStr ''img1'')]"
    unfolding i by blast
  then have "filter is_write (calls (snd (analyze_product_image ?E ?req s0))) =
       [Update c (update_payload ?E a t) (JStr ''img1'')]
     \<and> ?resp = json_response (JObj [(''source_image_url'', url), (''analysis'', a)]) 200"
    by (simp add: s0_def json_response_def)
  with tr r w show ?thesis by blast
qed

subsection \<open>C7: no write without a record id\<close>

text \<open>
  C7. For every request whose payload has no \<^verbatim>\<open>product_image_id\<close>, the writes issued to
  the record store are the same after the request as before it, whatever the outcome of
  the request. And whenever \<^verbatim>\<open>_analyze\<close> does issue a write, an id was supplied and its
  record lookup succeeded earlier in the same call.
\<close>

theorem no_write_without_id:
  "(get_json_silent req = Inr (JObj kvs) \<and> map_of kvs ''product_image_id'' = None \<longrightarrow>
      filter is_write (calls (snd (analyze_product_image e req s))) = filter is_write (calls s))
 \<and> (filter is_write (calls (snd (analyze e image_id image_url s))) \<noteq> filter is_write (calls s) \<longrightarrow>
      truthy image_id
      \<and> (\<exists>row s1. fetch_product_image_record e image_id s = (Inr row, s1)))"
proof (intro conjI impI)
  assume a: "get_json_silent req = Inr (JObj kvs) \<and> map_of kvs ''product_image_id'' = None"
  then have "dict_get kvs ''product_image_id'' = JNull" by (simp add: dict_get_absent)
  then have "filter is_write
      (calls (snd (analyze e (dict_get kvs ''product_image_id'') (dict_get kvs ''image_url'') s))) =
      filter is_write (calls s)"
    by (simp add: analyze_no_id_writes)
  with handler_calls [of req kvs e s] a
  show "filter is_write (calls (snd (analyze_product_image e req s))) = filter is_write (calls s)"
    by auto
next
  assume w: "filter is_write (calls (snd (analyze e image_id image_url s))) \<noteq>
             filter is_write (calls s)"
  then show "truthy image_id" using analyze_no_id_writes by blast
next
  assume w: "filter is_write (calls (snd (analyze e image_id image_url s))) \<noteq>
             filter is_write (calls s)"
  then have t: "truthy image_id" using analyze_no_id_writes by blast
  obtain r s1 where f: "fetch_product_image_record e image_id s = (r, s1)"
    by (cases "fetch_product_image_record e image_id s")
  show "\<exists>row s1. fetch_product_image_record e image_id s = (Inr row, s1)"
  proof (cases r)
    case (Inl x)
    with t f have "analyze e image_id image_url s = (Inl x, s1)"
      by (simp add: analyze_def resolve_input_def)
    with w fetch_frame(1) [OF f] show ?thesis by simp
  next
    case (Inr row)
    with f show ?thesis by blast
  qed
qed

text \<open>
  A request with only \<^verbatim>\<open>image_url\<close>, which writes nothing, and the call for the row
  \<open>img1\<close>, which writes.
\<close>

theorem no_write_without_id_witness:
  "map_of [(''image_url'', JStr ''https://x/img.jpg'')] ''product_image_id'' = None
 \<and> filter is_write (calls (snd (analyze_product_image (demo_env [Part (Some mango_text)] None)
        (post (JObj [(''image_url'', JStr ''https://x/img.jpg'')])) s0))) = []
 \<and> filter is_write (calls (snd (analyze (demo_env [Part (Some mango_text)] None)
        (JStr ''img1'') JNull s0))) \<noteq> []
 \<and> truthy (JStr ''img1'')"
  using no_write_without_id [of "post (JObj [(''image_url'', JStr ''https://x/img.jpg'')])"
      "[(''image_url'', JStr ''https://x/img.jpg'')]" "demo_env [Part (Some mango_text)] None" s0
      "JStr ''img1''" JNull]
  by (simp add: demo_defs)

subsection \<open>C8: the first failure is the answer\<close>




subsection \<open>C9: a body that is not JSON\<close>

text \<open>
  C9. For every POST whose body is not JSON, so that \<^verbatim>\<open>get_json(silent=True)\<close> gives
  \<^verbatim>\<open>None\<close>, the handler does not fail on the body: it answers as it does for the empty
  object, and that answer comes from input resolution, status 400 with the message that
  no image URL was provided, with no outside call made.
\<close>

theorem malformed_body_is_empty_object:
  assumes "http_method req = ''POST''"
    and "get_json_silent req = Inr JNull"
  shows "analyze_product_image e req s =
           analyze_product_image e (req\<lparr>get_json_silent := Inr (JObj [])\<rparr>) s
       \<and> analyze_product_image e req s =
           (Inr (json_response
                  (error_body ''No image URL provided or found in Supabase record'') 400), s)"
  using assms
  by (simp add: analyze_product_image_def py_or_def py_get_def dict_get_def analyze_no_id)

theorem malformed_body_is_empty_object_witness:
  "http_method (post JNull) = ''POST'' \<and> get_json_silent (post JNull) = Inr JNull
 \<and> analyze_product_image (demo_env [] None) (post JNull) s0 =
     (Inr \<lparr>body = JsonDumps (JObj [(''error'',
              JStr ''No image URL provided or found in Supabase record'')]),
           status = 400, headers = [(''Content-Type'', ''application/json'')]\<rparr>, s0)"
  using malformed_body_is_empty_object [of "post JNull" "demo_env [] None" s0, THEN conjunct2]
  by (simp add: post_def json_response_def error_body_def)

subsection \<open>C10: an empty record id\<close>

text \<open>
  C10. For every POST whose payload gives the empty string as \<^verbatim>\<open>product_image_id\<close>, the
  handler does exactly what it does for the same payload without that key; no call to the
  record store, lookup or write, is issued whatever the outcome; a non-empty \<^verbatim>\<open>image_url\<close>
  is the URL that is downloaded first and the \<^verbatim>\<open>source_image_url\<close> of a 200 answer; and
  with \<^verbatim>\<open>image_url\<close> empty or absent too the answer is status 400 with the message that
  no image URL was provided.
\<close>

theorem empty_id_as_absent:
  assumes "http_method req = ''POST''" and "get_json_silent req = Inr (JObj kvs)"
    and "dict_get kvs ''product_image_id'' = JStr []"
  shows "analyze_product_image e req s =
           analyze_product_image e
             (req\<lparr>get_json_silent :=
                    Inr (JObj (filter (\<lambda>kv. fst kv \<noteq> ''product_image_id'') kvs))\<rparr>) s
       \<and> filter is_store_call (calls (snd (analyze_product_image e req s))) =
           filter is_store_call (calls s)
       \<and> (truthy (dict_get kvs ''image_url'') \<longrightarrow>
            (\<exists>rest. calls (snd (analyze_product_image e req s)) =
                      calls s @ HttpGet (dict_get kvs ''image_url'') # rest)
          \<and> (\<forall>resp s'. analyze_product_image e req s = (Inr resp, s') \<and> status resp = 200 \<longrightarrow>
                (\<exists>a. body resp =
                       JsonDumps (JObj [(''source_image_url'', dict_get kvs ''image_url''),
                                        (''analysis'', a)]))))
       \<and> (\<not> truthy (dict_get kvs ''image_url'') \<longrightarrow>
            analyze_product_image e req s =
              (Inr (json_response
                     (error_body ''No image URL provided or found in Supabase record'') 400), s))"
proof -
  let ?url = "dict_get kvs ''image_url''"
  let ?kvs' = "filter (\<lambda>kv. fst kv \<noteq> ''product_image_id'') kvs"
  have f: "\<not> truthy (JStr [])" by simp
  have h: "analyze_product_image e req s =
     (case analyze e (JStr []) ?url s of
        (Inl x, s1) \<Rightarrow>
          (Inr (json_response (error_body (str_of x))
                 (if cls x = ValueError then 400 else 500)), s1)
      | (Inr result, s1) \<Rightarrow> (Inr (json_response result 200), s1))"
    using handler_post [OF assms(1,2)] assms(3) by simp
  have u: "dict_get ?kvs' ''image_url'' = ?url"
    by (rule dict_get_filter_other) simp
  have "analyze_product_image e (req\<lparr>get_json_silent := Inr (JObj ?kvs')\<rparr>) s =
     (case analyze e JNull ?url s of
        (Inl x, s1) \<Rightarrow>
          (Inr (json_response (error_body (str_of x))
                 (if cls x = ValueError then 400 else 500)), s1)
      | (Inr result, s1) \<Rightarrow> (Inr (json_response result 200), s1))"
    using handler_post [of "req\<lparr>get_json_silent := Inr (JObj ?kvs')\<rparr>" ?kvs' e s] assms(1)
    by (simp add: u dict_get_filter_same)
  moreover have "analyze e (JStr []) ?url s = analyze e JNull ?url s"
    by (rule analyze_falsy_id) simp_all
  ultimately have A: "analyze_product_image e req s =
      analyze_product_image e (req\<lparr>get_json_silent := Inr (JObj ?kvs')\<rparr>) s"
    using h by simp
  have c: "calls (snd (analyze_product_image e req s)) = calls (snd (analyze e (JStr []) ?url s))"
    using h by (simp split: prod.splits sum.splits)
  have B: "filter is_store_call (calls (snd (analyze_product_image e req s))) =
           filter is_store_call (calls s)"
    using c analyze_no_id_store [OF f, of e ?url s] by simp
  have C1: "truthy ?url \<Longrightarrow> \<exists>rest. calls (snd (analyze_product_image e req s)) =
                      calls s @ HttpGet ?url # rest"
    using c analyze_no_id_download [OF f, of ?url e s] by simp
  have C2: "\<And>resp s'. analyze_product_image e req s = (Inr resp, s') \<Longrightarrow> status resp = 200 \<Longrightarrow>
       \<exists>a. body resp = JsonDumps (JObj [(''source_image_url'', ?url), (''analysis'', a)])"
  proof -
    fix resp s'
    assume r: "analyze_product_image e req s = (Inr resp, s')" and st: "status resp = 200"
    obtain r1 s1 where a: "analyze e (JStr []) ?url s = (r1, s1)"
      by (cases "analyze e (JStr []) ?url s")
    show "\<exists>a. body resp = JsonDumps (JObj [(''source_image_url'', ?url), (''analysis'', a)])"
    proof (cases r1)
      case (Inl x)
      with h a r st show ?thesis by (auto simp: json_response_def split: if_splits)
    next
      case (Inr result)
      with a analyze_no_id_result [OF f, of e ?url s result s1]
      obtain an where "result = JObj [(''source_image_url'', ?url), (''analysis'', an)]"
        by auto
      with h a r Inr show ?thesis by (auto simp: json_response_def)
    qed
  qed
  have D: "\<not> truthy ?url \<Longrightarrow> analyze_product_image e req s =
              (Inr (json_response
                     (error_body ''No image URL provided or found in Supabase record'') 400), s)"
    using h by (simp add: analyze_no_id)
  from A B C1 C2 D show ?thesis by blast
qed

text \<open>
  A payload with an empty id and a URL answers as the payload with the URL alone and
  touches the store at no point; a payload with the empty id alone gets the 400.
\<close>

theorem empty_id_as_absent_witness:
  "dict_get [(''product_image_id'', JStr []), (''image_url'', JStr ''https://x/img.jpg'')]
     ''product_image_id'' = JStr []
 \<and> analyze_product_image (demo_env [Part (Some mango_text)] None)
       (post (JObj [(''product_image_id'', JStr []), (''image_url'', JStr ''https://x/img.jpg'')])) s0 =
     analyze_product_image (demo_env [Part (Some mango_text)] None)
       (post (JObj [(''image_url'', JStr ''https://x/img.jpg'')])) s0
 \<and> filter is_store_call (calls (snd (analyze_product_image (demo_env [Part (Some mango_text)] None)
       (post (JObj [(''product_image_id'', JStr []), (''image_url'', JStr ''https://x/img.jpg'')])) s0))) = []
 \<and> analyze_product_image (demo_env [] None) (post (JObj [(''product_image_id'', JStr [])])) s0 =
     (Inr (json_response
            (error_body ''No image URL provided or found in Supabase record'') 400), s0)"
proof -
  let ?kvs = "[(''product_image_id'', JStr []), (''image_url'', JStr ''https://x/img.jpg'')]"
  let ?E = "demo_env [Part (Some mango_text)] None"
  have d: "dict_get ?kvs ''product_image_id'' = JStr []"
    and d': "dict_get [(''product_image_id'', JStr [])] ''product_image_id'' = JStr []"
    by (simp_all add: dict_get_def)
  have u': "\<not> truthy (dict_get [(''product_image_id'', JStr [])] ''image_url'')"
    by (simp add: dict_get_def)
  note t = empty_id_as_absent [OF demo_post d, of ?E s0]
  note t' = empty_id_as_absent [OF demo_post d', of "demo_env [] None" s0]
  have "analyze_product_image ?E (post (JObj ?kvs)) s0 =
        analyze_product_image ?E (post (JObj [(''image_url'', JStr ''https://x/img.jpg'')])) s0"
    using t [THEN conjunct1] by (simp add: post_def)
  moreover have "filter is_store_call (calls (snd (analyze_product_image ?E (post (JObj ?kvs)) s0))) = []"
    using t [THEN conjunct2, THEN conjunct1] by (simp add: s0_def)
  moreover have "analyze_product_image (demo_env [] None)
       (post (JObj [(''product_image_id'', JStr [])])) s0 =
     (Inr (json_response
            (error_body ''No image URL provided or found in Supabase record'') 400), s0)"
    using t' u' by blast
  ultimately show ?thesis using d by blast
qed

end
